theory Spec2Isabelle
  imports Complex_Main "HOL-Library.AList" "HOL-Library.Log_Nat" "HOL-Library.Multiset"
begin

section \<open>Go values used by the host agent\<close>

subsection \<open>Strings\<close>

text \<open>
  \<^verbatim>\<open>strings.Split(s, sep)\<close> for a one-byte separator: the pieces between the
  separators, one more piece than there are separators; the empty string gives one
  empty piece.
\<close>

fun Split :: "char \<Rightarrow> string \<Rightarrow> string list" where
  "Split c [] = [[]]"
| "Split c (x # xs) =
     (if x = c then [] # Split c xs
      else (case Split c xs of [] \<Rightarrow> [[x]] | y # ys \<Rightarrow> (x # y) # ys))"

text \<open>\<^verbatim>\<open>strings.Trim(s, "\n")\<close>: leading and trailing newlines removed.\<close>

definition Trim_newline :: "string \<Rightarrow> string" where
  "Trim_newline s =
     rev (dropWhile (\<lambda>c. c = CHR 0x0A) (rev (dropWhile (\<lambda>c. c = CHR 0x0A) s)))"

definition digit_of :: "char \<Rightarrow> nat option" where
  "digit_of c =
     map_of [(CHR ''0'', 0), (CHR ''1'', 1), (CHR ''2'', 2), (CHR ''3'', 3), (CHR ''4'', 4),
             (CHR ''5'', 5), (CHR ''6'', 6), (CHR ''7'', 7), (CHR ''8'', 8), (CHR ''9'', 9)] c"

text \<open>The value of a string of decimal digits, most significant first, on top of \<open>acc\<close>;
  \<open>None\<close> when a byte is not a digit.\<close>

fun digits_value :: "nat \<Rightarrow> string \<Rightarrow> nat option" where
  "digits_value acc [] = Some acc"
| "digits_value acc (c # cs) =
     (case digit_of c of None \<Rightarrow> None | Some d \<Rightarrow> digits_value (10 * acc + d) cs)"

text \<open>
  \<^verbatim>\<open>strconv.ParseInt(s, 10, 64)\<close>: an optional sign, then at least one decimal digit
  and nothing else; a value outside the int64 range is an error (\<open>None\<close>).
\<close>

definition ParseUint :: "string \<Rightarrow> nat option" where
  "ParseUint s = (if s = [] then None else digits_value 0 s)"

definition ParseInt :: "string \<Rightarrow> int option" where
  "ParseInt s =
     (case s of
        [] \<Rightarrow> None
      | c # cs \<Rightarrow>
          (if c = CHR ''-'' then
             (case ParseUint cs of
                None \<Rightarrow> None
              | Some un \<Rightarrow> if int un \<le> 2 ^ 63 then Some (- int un) else None)
           else
             (case ParseUint (if c = CHR ''+'' then cs else s) of
                None \<Rightarrow> None
              | Some un \<Rightarrow> if int un < 2 ^ 63 then Some (int un) else None)))"

fun show_nat :: "nat \<Rightarrow> string" where
  "show_nat n =
     (if n < 10 then [''0123456789'' ! n]
      else show_nat (n div 10) @ [''0123456789'' ! (n mod 10)])"

declare show_nat.simps [simp del]

text \<open>\<^verbatim>\<open>fmt.Sprintf("%d", i)\<close> for an int64 \<open>i\<close>.\<close>

definition Sprintf_d :: "int \<Rightarrow> string" where
  "Sprintf_d i = (if i < 0 then CHR ''-'' # show_nat (nat (- i)) else show_nat (nat i))"

subsection \<open>int64\<close>

text \<open>An int64 is an \<open>int\<close> in the range \<open>- 2^63 \<dots> 2^63 - 1\<close>; arithmetic wraps.\<close>

definition wrap64 :: "int \<Rightarrow> int" where
  "wrap64 i = (i + 2 ^ 63) mod 2 ^ 64 - 2 ^ 63"

subsection \<open>Maps\<close>

text \<open>
  A \<^verbatim>\<open>map[string]T\<close> is an association list with distinct keys. \<^verbatim>\<open>m[k] = v\<close>
  is \<open>AList.update k v m\<close>; \<^verbatim>\<open>m[k]\<close> is the stored value, or the zero value of
  \<open>T\<close> when the key is absent.
\<close>

type_synonym gomap = "(string \<times> string) list"

definition index_str :: "gomap \<Rightarrow> string \<Rightarrow> string" where
  "index_str m k = (case map_of m k of None \<Rightarrow> [] | Some v \<Rightarrow> v)"

definition index_int :: "(string \<times> int) list \<Rightarrow> string \<Rightarrow> int" where
  "index_int m k = (case map_of m k of None \<Rightarrow> 0 | Some v \<Rightarrow> v)"

text \<open>
  \<^verbatim>\<open>for k, v := range m\<close> visits every entry once, in an order the runtime chooses.
  The choice is a list of picks: each pick selects, modulo the number of entries left,
  the entry visited next. Every order of the entries is the result of some picks.
\<close>

fun permute :: "nat list \<Rightarrow> 'a list \<Rightarrow> 'a list" where
  "permute picks [] = []"
| "permute [] (x # xs) = x # xs"
| "permute (k # picks) (x # xs) =
     (let i = k mod length (x # xs)
      in (x # xs) ! i # permute picks (take i (x # xs) @ drop (Suc i) (x # xs)))"

subsection \<open>float64\<close>

text \<open>
  A float64 is a finite binary64 number (as the rational it denotes; \<open>Finite 0\<close> is
  \<open>+0\<close>), the negative zero, an infinity or a NaN.
\<close>

datatype float64 = Finite rat | NegZero | PosInf | NegInf | NaN

definition pow2 :: "int \<Rightarrow> rat" where
  "pow2 e = (if 0 \<le> e then 2 ^ nat e else 1 / 2 ^ nat (- e))"

text \<open>\<open>\<lfloor>log\<^sub>2 x\<rfloor>\<close> for a positive rational, from the bit lengths of its numerator and
  denominator.\<close>

definition flog2 :: "rat \<Rightarrow> int" where
  "flog2 x =
     (let (p, q) = quotient_of x; e0 = bitlen p - bitlen q
      in if pow2 e0 \<le> x then e0 else e0 - 1)"

text \<open>Rounding to the nearest integer, ties to even.\<close>

definition round_half_even :: "rat \<Rightarrow> int" where
  "round_half_even x =
     (let f = \<lfloor>x\<rfloor>; d = x - of_int f
      in if d < 1 / 2 then f else if 1 / 2 < d then f + 1 else if even f then f else f + 1)"

text \<open>
  The binary64 rounding of an exact result: 53 significant bits, ties to even, the
  exponent not below that of the subnormal numbers. The result may be \<open>0\<close> (underflow)
  or reach \<open>2^1024\<close> (overflow), which gives a signed zero or a signed infinity.
\<close>

definition round_binary64 :: "rat \<Rightarrow> rat" where
  "round_binary64 x =
     (if x = 0 then 0
      else let e = max (flog2 \<bar>x\<bar>) (- 1022); q = pow2 (e - 52)
           in of_int (round_half_even (x / q)) * q)"

definition float64_of_exact :: "bool \<Rightarrow> rat \<Rightarrow> float64" where
  "float64_of_exact negative x =
     (let r = round_binary64 x
      in if r = 0 then (if negative then NegZero else Finite 0)
         else if 1024 \<le> flog2 \<bar>r\<bar> then (if negative then NegInf else PosInf)
         else Finite r)"

definition sign_bit :: "float64 \<Rightarrow> bool" where
  "sign_bit a = (case a of Finite x \<Rightarrow> x < 0 | NegZero \<Rightarrow> True | NegInf \<Rightarrow> True | _ \<Rightarrow> False)"

definition is_zero :: "float64 \<Rightarrow> bool" where
  "is_zero a = (a = Finite 0 \<or> a = NegZero)"

definition is_inf :: "float64 \<Rightarrow> bool" where
  "is_inf a = (a = PosInf \<or> a = NegInf)"

definition magnitude :: "float64 \<Rightarrow> rat" where
  "magnitude a = (case a of Finite x \<Rightarrow> \<bar>x\<bar> | _ \<Rightarrow> 0)"

text \<open>\<^verbatim>\<open>a / b\<close> on float64.\<close>

definition float64_div :: "float64 \<Rightarrow> float64 \<Rightarrow> float64" where
  "float64_div a b =
     (let negative = (sign_bit a \<noteq> sign_bit b)
      in if a = NaN \<or> b = NaN then NaN
         else if is_inf a then (if is_inf b then NaN else if negative then NegInf else PosInf)
         else if is_inf b then (if negative then NegZero else Finite 0)
         else if is_zero b then
           (if is_zero a then NaN else if negative then NegInf else PosInf)
         else if is_zero a then (if negative then NegZero else Finite 0)
         else float64_of_exact negative
                ((if negative then - 1 else 1) * (magnitude a / magnitude b)))"

text \<open>\<^verbatim>\<open>a * b\<close> on float64.\<close>

definition float64_mul :: "float64 \<Rightarrow> float64 \<Rightarrow> float64" where
  "float64_mul a b =
     (let negative = (sign_bit a \<noteq> sign_bit b)
      in if a = NaN \<or> b = NaN then NaN
         else if is_inf a \<or> is_inf b then
           (if is_zero a \<or> is_zero b then NaN else if negative then NegInf else PosInf)
         else if is_zero a \<or> is_zero b then (if negative then NegZero else Finite 0)
         else float64_of_exact negative
                ((if negative then - 1 else 1) * (magnitude a * magnitude b)))"

text \<open>\<^verbatim>\<open>float64(i)\<close> for an int64 \<open>i\<close>.\<close>

definition float64_of_int64 :: "int \<Rightarrow> float64" where
  "float64_of_int64 i = float64_of_exact False (of_int i)"

text \<open>The fraction of a number discarded (truncation towards zero).\<close>

definition trunc_zero :: "rat \<Rightarrow> int" where
  "trunc_zero x = (if 0 \<le> x then \<lfloor>x\<rfloor> else \<lceil>x\<rceil>)"

fun pad_left :: "nat \<Rightarrow> string \<Rightarrow> string" where
  "pad_left n s = (if length s < n then replicate (n - length s) CHR ''0'' @ s else s)"

text \<open>
  \<^verbatim>\<open>fmt.Sprintf("%f", x)\<close>: six digits after the point, the exact value rounded
  ties to even, the sign printed whenever the sign bit is set.
\<close>

definition Sprintf_f :: "float64 \<Rightarrow> string" where
  "Sprintf_f a =
     (case a of
        NaN \<Rightarrow> ''NaN''
      | PosInf \<Rightarrow> ''+Inf''
      | NegInf \<Rightarrow> ''-Inf''
      | NegZero \<Rightarrow> ''-0.000000''
      | Finite x \<Rightarrow>
          (let r = nat (round_half_even (\<bar>x\<bar> * 1000000))
           in (if x < 0 then ''-'' else '''') @ show_nat (r div 1000000) @ ''.'' @
              pad_left 6 (show_nat (r mod 1000000))))"

section \<open>The environment of the agent\<close>

text \<open>A read that fails, on the command connection or of the body of a request.\<close>

datatype read_error = ReadError

text \<open>
  An HTTP request as net/http receives it: the method, the path of the request target
  as it was sent, and the result of \<^verbatim>\<open>io.ReadAll(r.Body)\<close>, which the handler
  asks for.
\<close>

record request =
  reqMethod :: string
  reqPath :: string
  reqBody :: "read_error + string"

text \<open>
  What the agent calls but does not define, over a world \<open>'w\<close> that holds everything
  outside the process (the cgroup files, the clock):
  \<^item> \<open>ParseFloat s\<close> is \<^verbatim>\<open>strconv.ParseFloat(s, 64)\<close>, \<open>None\<close> when it returns an error;
  \<^item> \<open>convert_unrepresentable a\<close> is the int64 that \<^verbatim>\<open>int64(a)\<close> yields when the
    truncated value of \<open>a\<close> is not an int64 (Go leaves it to the implementation);
  \<^item> \<open>writetofile value path\<close> runs \<^verbatim>\<open>bash ./writetofile.sh value path\<close> and tells
    whether it exited with success;
  \<^item> \<open>cat path\<close> runs \<^verbatim>\<open>cat path\<close>, with its output, or \<open>None\<close> when it failed;
  \<^item> \<open>UnixNano\<close> is \<^verbatim>\<open>time.Now().UnixNano()\<close>, \<open>Sleep d\<close> is \<^verbatim>\<open>time.Sleep\<close> for
    \<open>d\<close> nanoseconds;
  \<^item> \<open>rangeSeed\<close> gives the picks of the next \<^verbatim>\<open>range\<close> over a map;
  \<^item> \<open>mux r\<close> is what the server and the mux of net/http do with a request before any
    handler runs: \<open>Some code\<close> when they answer it by themselves with that status (the
    redirect to the canonical path for a path with \<^verbatim>\<open>//\<close>, \<^verbatim>\<open>.\<close> or \<^verbatim>\<open>..\<close> elements,
    the refusal of a request they cannot take), \<open>None\<close> when they call the handler
    registered on \<^verbatim>\<open>"/"\<close>.
\<close>

record 'w env =
  ParseFloat :: "string \<Rightarrow> float64 option"
  convert_unrepresentable :: "float64 \<Rightarrow> int"
  writetofile :: "string \<Rightarrow> string \<Rightarrow> 'w \<Rightarrow> bool \<times> 'w"
  cat :: "string \<Rightarrow> 'w \<Rightarrow> string option \<times> 'w"
  UnixNano :: "'w \<Rightarrow> int \<times> 'w"
  Sleep :: "nat \<Rightarrow> 'w \<Rightarrow> 'w"
  rangeSeed :: "'w \<Rightarrow> nat list"
  mux :: "request \<Rightarrow> nat option"

text \<open>\<^verbatim>\<open>int64(share)\<close> for a float64 \<open>share\<close>.\<close>

definition int64_of_float64 :: "'w env \<Rightarrow> float64 \<Rightarrow> int" where
  "int64_of_float64 env a =
     (case a of
        Finite x \<Rightarrow>
          (if - (2 ^ 63) \<le> trunc_zero x \<and> trunc_zero x < 2 ^ 63 then trunc_zero x
           else wrap64 (convert_unrepresentable env a))
      | NegZero \<Rightarrow> 0
      | _ \<Rightarrow> wrap64 (convert_unrepresentable env a))"


section \<open>The host agent\<close>

definition CPU_UTILIZATION_INTERVAL_MS :: nat where
  "CPU_UTILIZATION_INTERVAL_MS = 100"

definition DEFAULT_LB_WEIGHTS :: string where
  "DEFAULT_LB_WEIGHTS = []"

subsection \<open>updatePods\<close>

fun getNewPods_loop :: "gomap \<Rightarrow> string list \<Rightarrow> gomap \<times> bool" where
  "getNewPods_loop podUIDs [] = (podUIDs, True)"
| "getNewPods_loop podUIDs (podStr # podStrs) =
     (let podNameToUID = Split CHR '':'' podStr
      in if length podNameToUID \<noteq> 2 then (podUIDs, False)
         else getNewPods_loop
                (AList.update (podNameToUID ! 0) (podNameToUID ! 1) podUIDs) podStrs)"

definition getNewPods :: "string \<Rightarrow> gomap \<times> bool" where
  "getNewPods msg = getNewPods_loop [] (tl (Split CHR '' '' msg))"

subsection \<open>applyCPUShares and applyCPUQuotas\<close>

fun parsePodShares_loop :: "'w env \<Rightarrow> gomap \<Rightarrow> string list \<Rightarrow> gomap \<times> bool" where
  "parsePodShares_loop env podShares [] = (podShares, True)"
| "parsePodShares_loop env podShares (podStr # podStrs) =
     (let podNameToShare = Split CHR '':'' podStr
      in if length podNameToShare \<noteq> 2 then (podShares, False)
         else (case ParseFloat env (podNameToShare ! 1) of
                 None \<Rightarrow> (podShares, False)
               | Some share \<Rightarrow>
                   parsePodShares_loop env
                     (AList.update (podNameToShare ! 0)
                        (Sprintf_d (int64_of_float64 env share)) podShares)
                     podStrs))"

definition parsePodShares :: "'w env \<Rightarrow> string \<Rightarrow> gomap \<times> bool" where
  "parsePodShares env msg = parsePodShares_loop env [] (tl (Split CHR '' '' msg))"


definition cgroupFile :: "gomap \<Rightarrow> string \<Rightarrow> string \<Rightarrow> string" where
  "cgroupFile podUIDs podName leaf =
     ''/host/sys/fs/cgroup/cpu/kubepods/'' @ index_str podUIDs podName @ leaf"

text \<open>
  The body of the loop over the parsed map, for the entries in the order of the
  \<^verbatim>\<open>range\<close>: the helper is run on the value and the file of the entry, and its first
  failure ends the function with \<open>False\<close>.
\<close>

fun writeEntries ::
  "'w env \<Rightarrow> gomap \<Rightarrow> string \<Rightarrow> (string \<times> string) list \<Rightarrow> 'w \<Rightarrow> bool \<times> 'w" where
  "writeEntries env podUIDs leaf [] w = (True, w)"
| "writeEntries env podUIDs leaf ((podName, share) # entries) w =
     (case writetofile env share (cgroupFile podUIDs podName leaf) w of
        (ok, w') \<Rightarrow> if ok then writeEntries env podUIDs leaf entries w' else (False, w'))"


definition applyCPUShares :: "'w env \<Rightarrow> gomap \<Rightarrow> string \<Rightarrow> 'w \<Rightarrow> bool \<times> 'w" where
  "applyCPUShares env podUIDs msg w =
     (case parsePodShares env msg of
        (podShares, ok) \<Rightarrow>
          if \<not> ok then (False, w)
          else writeEntries env podUIDs ''/cpu.shares''
                 (permute (rangeSeed env w) podShares) w)"

definition applyCPUQuotas :: "'w env \<Rightarrow> gomap \<Rightarrow> string \<Rightarrow> 'w \<Rightarrow> bool \<times> 'w" where
  "applyCPUQuotas env podUIDs msg w =
     (case parsePodShares env msg of
        (podQuotas, ok) \<Rightarrow>
          if \<not> ok then (False, w)
          else writeEntries env podUIDs ''/cpu.cfs_quota_us''
                 (permute (rangeSeed env w) podQuotas) w)"

subsection \<open>applyLBWeights\<close>

text \<open>The shared weights become the message; the pod map is not used.\<close>

definition updateLBWeights :: "gomap \<Rightarrow> string \<Rightarrow> string \<Rightarrow> bool \<times> string" where
  "updateLBWeights podUIDs msg weights = (True, msg)"

subsection \<open>getCPUUtilizations\<close>

definition getOSFile :: "'w env \<Rightarrow> string \<Rightarrow> 'w \<Rightarrow> string option \<times> 'w" where
  "getOSFile env readPath w = cat env readPath w"

definition getPodCPUUtil :: "'w env \<Rightarrow> string \<Rightarrow> 'w \<Rightarrow> int \<times> 'w" where
  "getPodCPUUtil env uid w =
     (case getOSFile env (''/host/sys/fs/cgroup/cpu/kubepods/'' @ uid @ ''/cpuacct.usage'') w of
        (None, w') \<Rightarrow> (- 1, w')
      | (Some cpuUtil, w') \<Rightarrow>
          (case ParseInt (Trim_newline cpuUtil) of
             None \<Rightarrow> (- 1, w')
           | Some cpuUtilInt64 \<Rightarrow> (cpuUtilInt64, w')))"

fun captureCPUUtils ::
  "'w env \<Rightarrow> (string \<times> string) list \<Rightarrow> (string \<times> int) list \<Rightarrow> 'w \<Rightarrow>
   (string \<times> int) list \<times> 'w" where
  "captureCPUUtils env [] utils w = (utils, w)"
| "captureCPUUtils env ((podName, uid) # entries) utils w =
     (case getPodCPUUtil env uid w of
        (v, w') \<Rightarrow> captureCPUUtils env entries (AList.update podName v utils) w')"

text \<open>The percentage of one pod, from the two captures and the elapsed nanoseconds.\<close>

definition utilization :: "int \<Rightarrow> int \<Rightarrow> int \<Rightarrow> float64" where
  "utilization final initial timeElapsed =
     float64_mul
       (float64_div (float64_of_int64 (wrap64 (final - initial))) (float64_of_int64 timeElapsed))
       (Finite 100)"

fun formatUtils ::
  "(string \<times> int) list \<Rightarrow> (string \<times> int) list \<Rightarrow> int \<Rightarrow> (string \<times> string) list \<Rightarrow>
   string \<Rightarrow> string" where
  "formatUtils initialCPUUtils finalCPUUtils timeElapsed [] response = response"
| "formatUtils initialCPUUtils finalCPUUtils timeElapsed ((podName, uid) # entries) response =
     formatUtils initialCPUUtils finalCPUUtils timeElapsed entries
       (response @ '' '' @ podName @ '':'' @
        Sprintf_f (utilization (index_int finalCPUUtils podName)
                     (index_int initialCPUUtils podName) timeElapsed))"

definition getCPUUtilizations :: "'w env \<Rightarrow> gomap \<Rightarrow> 'w \<Rightarrow> string \<times> 'w" where
  "getCPUUtilizations env podUIDs w0 =
     (case captureCPUUtils env (permute (rangeSeed env w0) podUIDs) [] w0 of
        (initialCPUUtils, w1) \<Rightarrow>
     (case UnixNano env w1 of
        (intialTime, w2) \<Rightarrow>
     (let w3 = Sleep env (CPU_UTILIZATION_INTERVAL_MS * 1000000) w2
      in case captureCPUUtils env (permute (rangeSeed env w3) podUIDs) [] w3 of
        (finalCPUUtils, w4) \<Rightarrow>
     (case UnixNano env w4 of
        (now, w5) \<Rightarrow>
          (formatUtils initialCPUUtils finalCPUUtils
             (wrap64 (wrap64 now - wrap64 intialTime))
             (permute (rangeSeed env w5) podUIDs) ''utils:'', w5)))))"

subsection \<open>The command connection\<close>

definition successOrFail :: "bool \<Rightarrow> string" where
  "successOrFail ok = (if ok then ''Success'' else ''Failure'')"

text \<open>
  The state a command handler works on: the pod map of its connection, the weights
  shared with the HTTP handler, and the world.
\<close>

record 'w session =
  podUIDs :: gomap
  lbWeights :: string
  world :: "'w"

text \<open>One turn of the loop of \<^verbatim>\<open>processClient\<close> after a message was read: the
  message sent back and the state afterwards.\<close>

definition handleMsg :: "'w env \<Rightarrow> string \<Rightarrow> 'w session \<Rightarrow> string \<times> 'w session" where
  "handleMsg env msgFromCC s =
     (let msgType = hd (Split CHR '' '' msgFromCC)
      in if msgType = ''updatePods'' then
           (case getNewPods msgFromCC of
              (newPodUIDs, ok) \<Rightarrow>
                (successOrFail ok, if ok then s\<lparr>podUIDs := newPodUIDs\<rparr> else s))
         else if msgType = ''applyLBWeights'' then
           (case updateLBWeights (podUIDs s) msgFromCC (lbWeights s) of
              (ok, weights) \<Rightarrow> (successOrFail ok, s\<lparr>lbWeights := weights\<rparr>))
         else if msgType = ''applyCPUShares'' then
           (case applyCPUShares env (podUIDs s) msgFromCC (world s) of
              (ok, w') \<Rightarrow> (successOrFail ok, s\<lparr>world := w'\<rparr>))
         else if msgType = ''applyCPUQuotas'' then
           (case applyCPUQuotas env (podUIDs s) msgFromCC (world s) of
              (ok, w') \<Rightarrow> (successOrFail ok, s\<lparr>world := w'\<rparr>))
         else if msgType = ''getCPUUtilizations'' then
           (case getCPUUtilizations env (podUIDs s) (world s) of
              (cpuUtilizations, w') \<Rightarrow> (cpuUtilizations, s\<lparr>world := w'\<rparr>))
         else (''Unknown message type'', s))"

text \<open>
  \<^verbatim>\<open>processClient\<close> over the results of its successive reads (\<open>Inl\<close> a read error,
  \<open>Inr\<close> the message read): the messages sent, whether the loop was left and the
  connection closed, and the state. A list that ends without a read error leaves the
  handler waiting in the next read.
\<close>

fun clientLoop ::
  "'w env \<Rightarrow> (read_error + string) list \<Rightarrow> 'w session \<Rightarrow> string list \<times> bool \<times> 'w session" where
  "clientLoop env [] s = ([], False, s)"
| "clientLoop env (Inl err # reads) s = ([], True, s)"
| "clientLoop env (Inr msgFromCC # reads) s =
     (case handleMsg env msgFromCC s of
        (response, s') \<Rightarrow>
          (case clientLoop env reads s' of
             (responses, ended, s'') \<Rightarrow> (response # responses, ended, s'')))"

definition processClient ::
  "'w env \<Rightarrow> (read_error + string) list \<Rightarrow> string \<Rightarrow> 'w \<Rightarrow> string list \<times> bool \<times> 'w session" where
  "processClient env reads weights w =
     clientLoop env reads \<lparr>podUIDs = [], lbWeights = weights, world = w\<rparr>"

subsection \<open>The weights endpoint\<close>

text \<open>
  The \<^verbatim>\<open>http.ResponseWriter\<close> of net/http, as far as the handler drives it. The
  first \<^verbatim>\<open>WriteHeader\<close> fixes the status and the header that is sent; later calls
  are ignored, and so are later changes of the header map.
\<close>

record responseWriter =
  wroteHeader :: bool
  status :: nat
  sentHeader :: "(string \<times> string) list"
  handlerHeader :: "(string \<times> string) list"
  written :: string

definition newResponseWriter :: responseWriter where
  "newResponseWriter =
     \<lparr>wroteHeader = False, status = 0, sentHeader = [], handlerHeader = [], written = []\<rparr>"

definition WriteHeader :: "nat \<Rightarrow> responseWriter \<Rightarrow> responseWriter" where
  "WriteHeader code rw =
     (if wroteHeader rw then rw
      else rw\<lparr>wroteHeader := True, status := code, sentHeader := handlerHeader rw\<rparr>)"

definition Header_Set :: "string \<Rightarrow> string \<Rightarrow> responseWriter \<Rightarrow> responseWriter" where
  "Header_Set k v rw = rw\<lparr>handlerHeader := AList.update k v (handlerHeader rw)\<rparr>"

definition Write :: "string \<Rightarrow> responseWriter \<Rightarrow> responseWriter" where
  "Write data rw =
     (let rw' = (if wroteHeader rw then rw else WriteHeader 200 rw)
      in rw'\<lparr>written := written rw' @ data\<rparr>)"

text \<open>\<^verbatim>\<open>http.Error(w, error, code)\<close>, as in the Go 1.22 of the Dockerfile: two headers
  are set, the status is written and the message is printed with a newline.\<close>

definition http_Error :: "responseWriter \<Rightarrow> string \<Rightarrow> nat \<Rightarrow> responseWriter" where
  "http_Error rw error code =
     Write (error @ [CHR 0x0A])
       (WriteHeader code
          (Header_Set ''X-Content-Type-Options'' ''nosniff''
             (Header_Set ''Content-Type'' ''text/plain; charset=utf-8'' rw)))"

text \<open>
  The handler registered by \<^verbatim>\<open>listenForReqsFromLB\<close> on \<^verbatim>\<open>"/"\<close>, which serves
  every method and path: given the shared weights, what it leaves in the response.
\<close>

definition lbHandler :: "string \<Rightarrow> request \<Rightarrow> responseWriter" where
  "lbHandler weights r =
     (let w1 = WriteHeader 200 newResponseWriter;
          w2 = Header_Set ''Connection'' ''close'' w1;
          currLBWeights = weights
      in case reqBody r of
           Inl err \<Rightarrow> http_Error w2 ''Error reading request body'' 500
         | Inr body \<Rightarrow> Write currLBWeights w2)"

text \<open>
  The response that net/http sends for what the handler has left in the response
  writer: the status, and as the body the bytes written, except that the response to a
  \<^verbatim>\<open>HEAD\<close> request carries no body.
\<close>

record httpResponse =
  respStatus :: nat
  respBody :: string

definition respond :: "request \<Rightarrow> responseWriter \<Rightarrow> httpResponse" where
  "respond r rw =
     \<lparr>respStatus = status rw,
      respBody = (if reqMethod r = ''HEAD'' then [] else written rw)\<rparr>"

subsection \<open>The agent\<close>

text \<open>
  \<^verbatim>\<open>main\<close> runs the command server, one \<^verbatim>\<open>processClient\<close> per accepted connection,
  beside the HTTP server. Every handler reads and writes the shared weights under the
  mutex, so the agent is a sequence of events, each handled as a whole: a connection
  is accepted, a read on a connection returns, an HTTP request arrives. A request that
  net/http answers by itself never reaches the handler.
\<close>

record 'w agent =
  connections :: "nat \<Rightarrow> gomap option"
  sharedWeights :: string
  outside :: "'w"

datatype event = Accept nat | Read nat "read_error + string" | Request request

datatype effect =
  Accepted nat | Sent nat string | Closed nat | Ignored | Refused nat | Served httpResponse

definition initialAgent :: "'w \<Rightarrow> 'w agent" where
  "initialAgent w =
     \<lparr>connections = (\<lambda>c. None), sharedWeights = DEFAULT_LB_WEIGHTS, outside = w\<rparr>"

fun agentStep :: "'w env \<Rightarrow> event \<Rightarrow> 'w agent \<Rightarrow> effect \<times> 'w agent" where
  "agentStep env (Accept c) a = (Accepted c, a\<lparr>connections := (connections a)(c \<mapsto> [])\<rparr>)"
| "agentStep env (Read c r) a =
     (case connections a c of
        None \<Rightarrow> (Ignored, a)
      | Some pods \<Rightarrow>
          (case r of
             Inl err \<Rightarrow> (Closed c, a\<lparr>connections := (connections a)(c := None)\<rparr>)
           | Inr msgFromCC \<Rightarrow>
               (case handleMsg env msgFromCC
                       \<lparr>podUIDs = pods, lbWeights = sharedWeights a, world = outside a\<rparr> of
                  (response, s) \<Rightarrow>
                    (Sent c response,
                     a\<lparr>connections := (connections a)(c \<mapsto> podUIDs s),
                       sharedWeights := lbWeights s, outside := world s\<rparr>))))"
| "agentStep env (Request r) a =
     (case mux env r of
        Some code \<Rightarrow> (Refused code, a)
      | None \<Rightarrow> (Served (respond r (lbHandler (sharedWeights a) r)), a))"

fun agentRun :: "'w env \<Rightarrow> event list \<Rightarrow> 'w agent \<Rightarrow> effect list \<times> 'w agent" where
  "agentRun env [] a = ([], a)"
| "agentRun env (ev # evs) a =
     (case agentStep env ev a of
        (out, a') \<Rightarrow> (case agentRun env evs a' of (outs, a'') \<Rightarrow> (out # outs, a'')))"

definition messageType :: "string \<Rightarrow> string" where
  "messageType msg = hd (Split CHR '' '' msg)"

fun setsWeights :: "event \<Rightarrow> bool" where
  "setsWeights (Read c (Inr msg)) = (messageType msg = ''applyLBWeights'')"
| "setsWeights ev = False"

section \<open>A concrete environment\<close>

text \<open>
  A world of cgroup files and a clock. The helper writes a file that exists and fails
  on one that does not, \<^verbatim>\<open>cat\<close> fails on a file that does not exist, sleeping
  advances the clock, and a \<^verbatim>\<open>range\<close> visits a map in the order of insertion.
  \<open>parseDecimal\<close> is \<^verbatim>\<open>strconv.ParseFloat\<close> on the decimal numbers without exponent: an
  optional sign and digits around at most one point, rounded to the nearest float64. It
  rejects every other string, also the forms with an exponent, in hexadecimal, and the
  names of the infinities and of NaN, which \<^verbatim>\<open>ParseFloat\<close> accepts; the instances
  below use plain decimals only.
  \<open>plainMux\<close> passes to the handler the requests whose path is in canonical form (it
  starts with \<^verbatim>\<open>/\<close> and has no empty element before its end and no \<^verbatim>\<open>.\<close> or \<^verbatim>\<open>..\<close>
  element), as the mux of net/http does for every method but \<^verbatim>\<open>CONNECT\<close>, and answers
  301 to the others; for the request target \<^verbatim>\<open>*\<close> it answers 200 to \<^verbatim>\<open>OPTIONS\<close>, as
  the server does, and 400 to every other method, as the mux does. It does not describe
  what net/http does with \<^verbatim>\<open>CONNECT\<close>, which no instance below uses.
\<close>

record cgroupfs =
  files :: "(string \<times> string) list"
  clock :: int

definition parseDecimal :: "string \<Rightarrow> float64 option" where
  "parseDecimal s =
     (let negative = (s \<noteq> [] \<and> hd s = CHR ''-'');
          unsigned = (if s \<noteq> [] \<and> (hd s = CHR ''-'' \<or> hd s = CHR ''+'') then tl s else s);
          parts = Split CHR ''.'' unsigned;
          whole = hd parts;
          fraction = (if length parts = 2 then parts ! 1 else [])
      in if 2 < length parts \<or> (whole = [] \<and> fraction = []) then None
         else (case (digits_value 0 whole, digits_value 0 fraction) of
                 (Some i, Some f) \<Rightarrow>
                   (let x = of_nat i + of_nat f / 10 ^ length fraction;
                        a = float64_of_exact negative (if negative then - x else x)
                    in if is_inf a then None else Some a)
               | _ \<Rightarrow> None))"

definition canonicalPath :: "string \<Rightarrow> bool" where
  "canonicalPath p =
     (p \<noteq> [] \<and> hd p = CHR ''/'' \<and>
      list_all (\<lambda>e. e \<noteq> []) (butlast (Split CHR ''/'' (tl p))) \<and>
      list_all (\<lambda>e. e \<noteq> ''.'' \<and> e \<noteq> ''..'') (Split CHR ''/'' (tl p)))"

definition plainMux :: "request \<Rightarrow> nat option" where
  "plainMux r =
     (if reqPath r = ''*'' then (if reqMethod r = ''OPTIONS'' then Some 200 else Some 400)
      else if reqMethod r \<noteq> ''CONNECT'' \<and> canonicalPath (reqPath r) then None
      else Some 301)"

definition fsEnv :: "cgroupfs env" where
  "fsEnv =
     \<lparr>ParseFloat = parseDecimal,
      convert_unrepresentable = (\<lambda>a. - (2 ^ 63)),
      writetofile = (\<lambda>v p w.
        case map_of (files w) p of
          None \<Rightarrow> (False, w)
        | Some old \<Rightarrow> (True, w\<lparr>files := AList.update p v (files w)\<rparr>)),
      cat = (\<lambda>p w. (map_of (files w) p, w)),
      UnixNano = (\<lambda>w. (clock w, w)),
      Sleep = (\<lambda>d w. w\<lparr>clock := clock w + int d\<rparr>),
      rangeSeed = (\<lambda>w. []),
      mux = plainMux\<rparr>"


text \<open>
  Two variants for a pod whose cgroup directory is created, or removed, while the agent
  sleeps between its two captures.
\<close>

definition appearingEnv :: "cgroupfs env" where
  "appearingEnv =
     fsEnv\<lparr>Sleep := (\<lambda>d w.
       w\<lparr>clock := clock w + int d,
         files := [(''/host/sys/fs/cgroup/cpu/kubepods/u/cpuacct.usage'',
                    ''199999999'' @ [CHR 0x0A])]\<rparr>)\<rparr>"

definition vanishingEnv :: "cgroupfs env" where
  "vanishingEnv =
     fsEnv\<lparr>Sleep := (\<lambda>d w. w\<lparr>clock := clock w + int d, files := []\<rparr>)\<rparr>"

section \<open>What the specification names\<close>

text \<open>
  The pairs of an \<open>updatePods\<close> message as the specification describes them: every
  space-separated item after the command word, split on \<open>:\<close> into the pod name and the
  pod UID. The message is well formed when every item splits into exactly two fields.
  As a map, a later pair for a name replaces an earlier one.
\<close>

definition podPairs :: "string \<Rightarrow> (string \<times> string) list" where
  "podPairs msg =
     map (\<lambda>podStr. (Split CHR '':'' podStr ! 0, Split CHR '':'' podStr ! 1))
       (tl (Split CHR '' '' msg))"

definition wellFormedPairs :: "string \<Rightarrow> bool" where
  "wellFormedPairs msg =
     list_all (\<lambda>podStr. length (Split CHR '':'' podStr) = 2) (tl (Split CHR '' '' msg))"

section \<open>Properties\<close>

subsection \<open>The model of the runtime\<close>

lemma Split_not_Nil: "Split c s \<noteq> []"
  by (induction s) (auto split: list.splits)



text \<open>Every order of the entries is the result of some picks.\<close>

lemma permute_complete:
  "mset ys = mset xs \<Longrightarrow> \<exists>picks. permute picks xs = ys"
proof (induction ys arbitrary: xs)
  case Nil
  then have "xs = []" by simp
  then show ?case by simp
next
  case (Cons y ys)
  from Cons.prems have "y \<in> set xs"
    by (metis list.set_intros(1) set_mset_mset)
  then obtain i where i: "i < length xs" "xs ! i = y"
    by (auto simp: in_set_conv_nth)
  let ?rest = "take i xs @ drop (Suc i) xs"
  from id_take_nth_drop [OF i(1)] i(2) have "xs = take i xs @ y # drop (Suc i) xs" by simp
  then have "mset xs = add_mset y (mset ?rest)"
    by (metis mset.simps(2) mset_append union_mset_add_mset_right)
  with Cons.prems have "mset ys = mset ?rest" by simp
  from Cons.IH [OF this] obtain picks where p: "permute picks ?rest = ys" by blast
  from i(1) obtain x xs' where xs: "xs = x # xs'" by (cases xs) auto
  have "permute (i # picks) xs = y # ys"
    using i p unfolding xs by (simp add: Let_def)
  then show ?case by blast
qed

lemma pow2_powi: "pow2 e = 2 powi e"
  by (simp add: pow2_def power_int_def field_simps)

text \<open>\<open>flog2 x\<close> is the exponent of the power of two at or below a positive \<open>x\<close>.\<close>

lemma flog2_bounds:
  assumes "0 < x"
  shows "pow2 (flog2 x) \<le> x \<and> x < pow2 (flog2 x + 1)"
proof -
  obtain p q where pq: "quotient_of x = (p, q)" by (cases "quotient_of x")
  then have q: "0 < q" and x: "x = of_int p / of_int q"
    using quotient_of_denom_pos quotient_of_div by blast+
  with assms have p: "0 < p"
    by (simp add: zero_less_divide_iff)
  let ?bp = "bitlen p" and ?bq = "bitlen q"
  from p q have b1: "1 \<le> ?bp" "1 \<le> ?bq"
    using bitlen_eq_zero_iff [of p] bitlen_eq_zero_iff [of q] bitlen_nonneg [of p]
      bitlen_nonneg [of q] by linarith+
  have int_pow: "(2::rat) powi e = of_int (2 ^ nat e)" if "0 \<le> e" for e
    using that by (simp add: power_int_def)
  from bitlen_bounds [OF p] have "rat_of_int (2 ^ nat (?bp - 1)) \<le> of_int p"
    and "rat_of_int p < of_int (2 ^ nat ?bp)"
    by (simp_all only: of_int_le_iff of_int_less_iff)
  with b1 have pl: "(2::rat) powi (?bp - 1) \<le> of_int p" and pu: "of_int p < (2::rat) powi ?bp"
    by (simp_all add: int_pow)
  from bitlen_bounds [OF q] have "rat_of_int (2 ^ nat (?bq - 1)) \<le> of_int q"
    and "rat_of_int q < of_int (2 ^ nat ?bq)"
    by (simp_all only: of_int_le_iff of_int_less_iff)
  with b1 have ql: "(2::rat) powi (?bq - 1) \<le> of_int q" and qu: "of_int q < (2::rat) powi ?bq"
    by (simp_all add: int_pow)
  have pos: "0 < (2::rat) powi e" for e by simp
  have upper: "x < 2 powi (?bp - ?bq + 1)"
  proof -
    have "x < 2 powi ?bp / 2 powi (?bq - 1)"
      unfolding x using pu ql pos [of "?bq - 1"] p
      by (intro frac_less) simp_all
    also have "\<dots> = 2 powi (?bp - (?bq - 1))"
      by (simp add: power_int_diff)
    finally show ?thesis by (simp add: algebra_simps)
  qed
  have lower: "2 powi (?bp - ?bq - 1) \<le> x"
  proof -
    have "2 powi (?bp - 1) / 2 powi ?bq \<le> x"
      unfolding x using pl less_imp_le [OF qu] q p
      by (intro frac_le) simp_all
    moreover have "2 powi (?bp - 1) / 2 powi ?bq = (2::rat) powi (?bp - 1 - ?bq)"
      by (simp add: power_int_diff)
    ultimately show ?thesis by (simp add: algebra_simps)
  qed
  show ?thesis
  proof (cases "pow2 (?bp - ?bq) \<le> x")
    case True
    then have "flog2 x = ?bp - ?bq" by (simp add: flog2_def pq)
    with True upper show ?thesis by (simp add: pow2_powi)
  next
    case False
    then have "flog2 x = ?bp - ?bq - 1" by (simp add: flog2_def pq)
    with False lower show ?thesis by (simp add: pow2_powi)
  qed
qed

subsection \<open>The concrete environment\<close>

lemma fsEnv_sel:
  "rangeSeed fsEnv w = []"
  "writetofile fsEnv v p w =
     (case map_of (files w) p of
        None \<Rightarrow> (False, w)
      | Some old \<Rightarrow> (True, w\<lparr>files := AList.update p v (files w)\<rparr>))"
  "cat fsEnv p w = (map_of (files w) p, w)"
  "UnixNano fsEnv w = (clock w, w)"
  "Sleep fsEnv d w = w\<lparr>clock := clock w + int d\<rparr>"
  by (simp_all add: fsEnv_def)


lemma fsEnv_mux: "mux fsEnv = plainMux"
  by (simp add: fsEnv_def)

lemma replicate_5: "replicate 5 x = [x, x, x, x, x]"
  by (simp add: eval_nat_numeral)

subsection \<open>Parsing a batch\<close>

lemma parsePodShares_loop_bad:
  assumes "podStr \<in> set podStrs"
    and "length (Split CHR '':'' podStr) \<noteq> 2
         \<or> ParseFloat env (Split CHR '':'' podStr ! 1) = None"
  shows "\<not> snd (parsePodShares_loop env acc podStrs)"
  using assms
proof (induction podStrs arbitrary: acc)
  case Nil
  then show ?case by simp
next
  case (Cons p ps)
  show ?case
  proof (cases "p = podStr")
    case True
    with Cons.prems(2) show ?thesis by (auto simp: Let_def split: option.splits)
  next
    case False
    with Cons.prems have "podStr \<in> set ps" by simp
    from Cons.IH [OF this Cons.prems(2)] show ?thesis
      by (auto simp: Let_def split: option.splits)
  qed
qed

lemma applyCPUShares_unparsed:
  "\<not> snd (parsePodShares env msg) \<Longrightarrow> applyCPUShares env pods msg w = (False, w)"
  by (cases "parsePodShares env msg") (simp add: applyCPUShares_def)

lemma applyCPUQuotas_unparsed:
  "\<not> snd (parsePodShares env msg) \<Longrightarrow> applyCPUQuotas env pods msg w = (False, w)"
  by (cases "parsePodShares env msg") (simp add: applyCPUQuotas_def)

text \<open>
  Claim C10. An \<open>applyCPUShares\<close> or \<open>applyCPUQuotas\<close> message with an entry that
  does not split into exactly two fields on \<open>:\<close>, or whose value \<^verbatim>\<open>ParseFloat\<close>
  rejects, is answered \<open>Failure\<close>, and the state, the world with it, is the one before
  the message, whatever the helper would do: the payload is parsed to its end before
  the first run of the helper, and no run is made.
\<close>

theorem malformed_batch_no_write:
  assumes "messageType msg = ''applyCPUShares'' \<or> messageType msg = ''applyCPUQuotas''"
    and "podStr \<in> set (tl (Split CHR '' '' msg))"
    and "length (Split CHR '':'' podStr) \<noteq> 2
         \<or> ParseFloat env (Split CHR '':'' podStr ! 1) = None"
  shows "handleMsg env msg s = (''Failure'', s)
       \<and> applyCPUShares env pods msg w = (False, w)
       \<and> applyCPUQuotas env pods msg w = (False, w)"
proof -
  have bad: "\<not> snd (parsePodShares env msg)"
    unfolding parsePodShares_def
    by (rule parsePodShares_loop_bad [OF assms(2) assms(3)])
  note sh = applyCPUShares_unparsed [OF bad]
  note qu = applyCPUQuotas_unparsed [OF bad]
  from assms(1) have "handleMsg env msg s = (''Failure'', s)"
    by (auto simp: handleMsg_def messageType_def sh qu successOrFail_def)
  with sh qu show ?thesis by simp
qed

theorem malformed_batch_no_write_witness:
  "(messageType ''applyCPUShares a:1 b:x'' = ''applyCPUShares''
    \<or> messageType ''applyCPUShares a:1 b:x'' = ''applyCPUQuotas'')
   \<and> ''b:x'' \<in> set (tl (Split CHR '' '' ''applyCPUShares a:1 b:x''))
   \<and> ParseFloat fsEnv (Split CHR '':'' ''b:x'' ! 1) = None
   \<and> handleMsg fsEnv ''applyCPUShares a:1 b:x''
       \<lparr>podUIDs = [(''a'', ''ua'')], lbWeights = [],
        world = \<lparr>files = [(''/host/sys/fs/cgroup/cpu/kubepods/ua/cpu.shares'', ''1024'')],
                 clock = 0\<rparr>\<rparr>
     = (''Failure'',
       \<lparr>podUIDs = [(''a'', ''ua'')], lbWeights = [],
        world = \<lparr>files = [(''/host/sys/fs/cgroup/cpu/kubepods/ua/cpu.shares'', ''1024'')],
                 clock = 0\<rparr>\<rparr>)"
proof -
  have t: "messageType ''applyCPUShares a:1 b:x'' = ''applyCPUShares''
           \<or> messageType ''applyCPUShares a:1 b:x'' = ''applyCPUQuotas''"
    by (simp add: messageType_def)
  have m: "''b:x'' \<in> set (tl (Split CHR '' '' ''applyCPUShares a:1 b:x''))"
    by simp
  have b: "ParseFloat fsEnv (Split CHR '':'' ''b:x'' ! 1) = None"
    by (simp add: fsEnv_def parseDecimal_def digit_of_def)
  from malformed_batch_no_write [OF t m disjI2 [OF b]] t m b show ?thesis by blast
qed

subsection \<open>updatePods\<close>

lemma getNewPods_loop_ok:
  "list_all (\<lambda>p. length (Split CHR '':'' p) = 2) ps \<Longrightarrow>
   getNewPods_loop acc ps =
     (foldl (\<lambda>m p. AList.update (Split CHR '':'' p ! 0) (Split CHR '':'' p ! 1) m) acc ps, True)"
  by (induction ps arbitrary: acc) (simp_all add: Let_def)

lemma getNewPods_loop_bad:
  "\<not> list_all (\<lambda>p. length (Split CHR '':'' p) = 2) ps \<Longrightarrow>
   \<not> snd (getNewPods_loop acc ps)"
  by (induction ps arbitrary: acc) (auto simp: Let_def)

lemma map_of_foldl_update:
  "map_of (foldl (\<lambda>m p. AList.update (f p) (g p) m) acc ps) =
   map_of (rev (map (\<lambda>p. (f p, g p)) ps) @ acc)"
  by (induction ps arbitrary: acc) (simp_all add: update_conv')

lemma distinct_foldl_update:
  "distinct (map fst acc) \<Longrightarrow>
   distinct (map fst (foldl (\<lambda>m p. AList.update (f p) (g p) m) acc ps))"
  by (induction ps arbitrary: acc) (simp_all add: distinct_update)

text \<open>
  Claim C5. For an \<open>updatePods\<close> message: when every space-separated pair splits into
  exactly two fields on \<open>:\<close>, the answer is \<open>Success\<close> and the pod map of the session
  becomes a map that holds exactly the parsed pairs, whatever it held before, the rest
  of the state unchanged; when a pair is malformed, the answer is \<open>Failure\<close> and the
  state, the pod map with it, is unchanged.
\<close>

theorem updatePods_replaces_or_keeps:
  assumes "messageType msg = ''updatePods''"
  shows "if wellFormedPairs msg
         then \<exists>m. handleMsg env msg s = (''Success'', s\<lparr>podUIDs := m\<rparr>)
                \<and> map_of m = map_of (rev (podPairs msg)) \<and> distinct (map fst m)
         else handleMsg env msg s = (''Failure'', s)"
proof (cases "wellFormedPairs msg")
  case True
  let ?m = "foldl (\<lambda>m p. AList.update (Split CHR '':'' p ! 0) (Split CHR '':'' p ! 1) m) []
              (tl (Split CHR '' '' msg))"
  from True have g: "getNewPods msg = (?m, True)"
    unfolding wellFormedPairs_def getNewPods_def by (rule getNewPods_loop_ok)
  from assms have "handleMsg env msg s = (''Success'', s\<lparr>podUIDs := ?m\<rparr>)"
    by (simp add: handleMsg_def messageType_def g successOrFail_def)
  moreover have "map_of ?m = map_of (rev (podPairs msg))"
    by (simp add: map_of_foldl_update podPairs_def)
  moreover have "distinct (map fst ?m)"
    by (rule distinct_foldl_update) simp
  ultimately show ?thesis using True by auto
next
  case False
  then have "\<not> snd (getNewPods msg)"
    unfolding wellFormedPairs_def getNewPods_def by (rule getNewPods_loop_bad)
  then obtain m where "getNewPods msg = (m, False)"
    by (cases "getNewPods msg") auto
  with assms False show ?thesis
    by (simp add: handleMsg_def messageType_def successOrFail_def)
qed

theorem updatePods_replaces_or_keeps_witness:
  "messageType ''updatePods p1:u1 p2:u2'' = ''updatePods''
   \<and> wellFormedPairs ''updatePods p1:u1 p2:u2''
   \<and> (\<exists>m. handleMsg fsEnv ''updatePods p1:u1 p2:u2''
             \<lparr>podUIDs = [(''old'', ''uid0'')], lbWeights = ''w'',
              world = \<lparr>files = [], clock = 0\<rparr>\<rparr>
           = (''Success'',
              \<lparr>podUIDs = m, lbWeights = ''w'', world = \<lparr>files = [], clock = 0\<rparr>\<rparr>)
         \<and> map_of m = map_of [(''p2'', ''u2''), (''p1'', ''u1'')])
   \<and> messageType ''updatePods p1:u1 p2'' = ''updatePods''
   \<and> \<not> wellFormedPairs ''updatePods p1:u1 p2''
   \<and> handleMsg fsEnv ''updatePods p1:u1 p2''
        \<lparr>podUIDs = [(''old'', ''uid0'')], lbWeights = ''w'',
         world = \<lparr>files = [], clock = 0\<rparr>\<rparr>
      = (''Failure'',
         \<lparr>podUIDs = [(''old'', ''uid0'')], lbWeights = ''w'',
          world = \<lparr>files = [], clock = 0\<rparr>\<rparr>)"
proof -
  have t1: "messageType ''updatePods p1:u1 p2:u2'' = ''updatePods''"
    by (simp add: messageType_def)
  have w1: "wellFormedPairs ''updatePods p1:u1 p2:u2''"
    by (simp add: wellFormedPairs_def)
  have p1: "rev (podPairs ''updatePods p1:u1 p2:u2'') = [(''p2'', ''u2''), (''p1'', ''u1'')]"
    by (simp add: podPairs_def)
  have t2: "messageType ''updatePods p1:u1 p2'' = ''updatePods''"
    by (simp add: messageType_def)
  have w2: "\<not> wellFormedPairs ''updatePods p1:u1 p2''"
    by (simp add: wellFormedPairs_def)
  from updatePods_replaces_or_keeps [OF t1, of fsEnv
      "\<lparr>podUIDs = [(''old'', ''uid0'')], lbWeights = ''w'',
        world = \<lparr>files = [], clock = 0\<rparr>\<rparr>"] w1 p1
  have a: "\<exists>m. handleMsg fsEnv ''updatePods p1:u1 p2:u2''
             \<lparr>podUIDs = [(''old'', ''uid0'')], lbWeights = ''w'',
              world = \<lparr>files = [], clock = 0\<rparr>\<rparr>
           = (''Success'',
              \<lparr>podUIDs = m, lbWeights = ''w'', world = \<lparr>files = [], clock = 0\<rparr>\<rparr>)
         \<and> map_of m = map_of [(''p2'', ''u2''), (''p1'', ''u1'')]"
    by auto
  from updatePods_replaces_or_keeps [OF t2, of fsEnv
      "\<lparr>podUIDs = [(''old'', ''uid0'')], lbWeights = ''w'',
        world = \<lparr>files = [], clock = 0\<rparr>\<rparr>"] w2
  have b: "handleMsg fsEnv ''updatePods p1:u1 p2''
        \<lparr>podUIDs = [(''old'', ''uid0'')], lbWeights = ''w'',
         world = \<lparr>files = [], clock = 0\<rparr>\<rparr>
      = (''Failure'',
         \<lparr>podUIDs = [(''old'', ''uid0'')], lbWeights = ''w'',
          world = \<lparr>files = [], clock = 0\<rparr>\<rparr>)"
    by simp
  from t1 w1 a t2 w2 b show ?thesis by blast
qed

subsection \<open>Unknown commands and read errors\<close>

text \<open>
  Claim C6. A message whose first space-delimited token is none of \<open>updatePods\<close>,
  \<open>applyLBWeights\<close>, \<open>applyCPUShares\<close>, \<open>applyCPUQuotas\<close>, \<open>getCPUUtilizations\<close> is
  answered \<open>Unknown message type\<close> with the pod map, the weights and the world unchanged,
  and the loop goes on with the next read; a read error ends the loop, which closes the
  connection, whatever reads would follow.
\<close>

theorem unknown_message_type:
  assumes "messageType msg \<notin> {''updatePods'', ''applyLBWeights'', ''applyCPUShares'',
             ''applyCPUQuotas'', ''getCPUUtilizations''}"
  shows "handleMsg env msg s = (''Unknown message type'', s)
       \<and> clientLoop env (Inr msg # reads) s =
           (case clientLoop env reads s of
              (responses, ended, s') \<Rightarrow> (''Unknown message type'' # responses, ended, s'))
       \<and> clientLoop env (Inl err # reads) s = ([], True, s)"
proof -
  from assms have "handleMsg env msg s = (''Unknown message type'', s)"
    by (simp add: handleMsg_def messageType_def)
  then show ?thesis by simp
qed

theorem unknown_message_type_witness:
  "messageType ''ping now'' \<notin> {''updatePods'', ''applyLBWeights'', ''applyCPUShares'',
      ''applyCPUQuotas'', ''getCPUUtilizations''}
   \<and> clientLoop fsEnv [Inr ''ping now'', Inr ''updatePods p:u'', Inl ReadError, Inr ''late'']
        \<lparr>podUIDs = [], lbWeights = ''w'', world = \<lparr>files = [], clock = 0\<rparr>\<rparr>
      = ([''Unknown message type'', ''Success''], True,
         \<lparr>podUIDs = [(''p'', ''u'')], lbWeights = ''w'', world = \<lparr>files = [], clock = 0\<rparr>\<rparr>)"
proof -
  have t: "messageType ''ping now'' \<notin> {''updatePods'', ''applyLBWeights'',
      ''applyCPUShares'', ''applyCPUQuotas'', ''getCPUUtilizations''}"
    by (simp add: messageType_def)
  have r: "clientLoop fsEnv [Inr ''updatePods p:u'', Inl ReadError, Inr ''late'']
        \<lparr>podUIDs = [], lbWeights = ''w'', world = \<lparr>files = [], clock = 0\<rparr>\<rparr>
      = ([''Success''], True,
         \<lparr>podUIDs = [(''p'', ''u'')], lbWeights = ''w'', world = \<lparr>files = [], clock = 0\<rparr>\<rparr>)"
    by (simp add: handleMsg_def getNewPods_def successOrFail_def)
  from unknown_message_type [OF t, of fsEnv
      "\<lparr>podUIDs = [], lbWeights = ''w'', world = \<lparr>files = [], clock = 0\<rparr>\<rparr>"
      "[Inr ''updatePods p:u'', Inl ReadError, Inr ''late'']"] r t
  show ?thesis by simp
qed

subsection \<open>Writing a batch\<close>

lemma writeEntries_append:
  "writeEntries env pods leaf (xs @ ys) w =
     (case writeEntries env pods leaf xs w of
        (ok, w') \<Rightarrow> if ok then writeEntries env pods leaf ys w' else (False, w'))"
  by (induction xs arbitrary: w) (auto split: prod.splits)




lemma parse_a1_b2:
  "parsePodShares fsEnv ''applyCPUShares a:1 b:2'' = ([(''a'', ''1''), (''b'', ''2'')], True)"
  by code_simp

lemma parse_a1_bx:
  "\<not> snd (parsePodShares fsEnv ''applyCPUShares a:1 b:x'')"
  by code_simp

text \<open>
  Claim C3, as amended. A batch is not rolled back. A batch that fails in parsing is
  answered \<open>Failure\<close> with the state, the world with it, as it was. When the payload
  parses and, in the order of the \<^verbatim>\<open>range\<close>, the helper succeeds on the entries
  \<open>before\<close> and fails on the next one, the answer is the single \<open>Failure\<close>, the world is
  the one the writes of \<open>before\<close> and the failed run have left, and the helper is run on
  no later entry.
\<close>

theorem partial_batch_stays_applied:
  assumes kind: "messageType msg = ''applyCPUShares'' \<and> leaf = ''/cpu.shares''
               \<or> messageType msg = ''applyCPUQuotas'' \<and> leaf = ''/cpu.cfs_quota_us''"
  shows "(\<not> snd (parsePodShares env msg) \<longrightarrow> handleMsg env msg s = (''Failure'', s))
       \<and> (snd (parsePodShares env msg)
          \<and> permute (rangeSeed env (world s)) (fst (parsePodShares env msg))
              = before @ (podName, share) # rest
          \<and> writeEntries env (podUIDs s) leaf before (world s) = (True, w1)
          \<and> writetofile env share (cgroupFile (podUIDs s) podName leaf) w1 = (False, w2)
          \<longrightarrow> handleMsg env msg s = (''Failure'', s\<lparr>world := w2\<rparr>))"
proof (intro conjI impI)
  assume bad: "\<not> snd (parsePodShares env msg)"
  from kind show "handleMsg env msg s = (''Failure'', s)"
    by (auto simp: handleMsg_def messageType_def successOrFail_def
        applyCPUShares_unparsed [OF bad] applyCPUQuotas_unparsed [OF bad])
next
  assume h: "snd (parsePodShares env msg)
          \<and> permute (rangeSeed env (world s)) (fst (parsePodShares env msg))
              = before @ (podName, share) # rest
          \<and> writeEntries env (podUIDs s) leaf before (world s) = (True, w1)
          \<and> writetofile env share (cgroupFile (podUIDs s) podName leaf) w1 = (False, w2)"
  obtain podShares where parsed: "parsePodShares env msg = (podShares, True)"
    using h by (cases "parsePodShares env msg") auto
  have "writeEntries env (podUIDs s) leaf (before @ (podName, share) # rest) (world s)
          = (False, w2)"
    using h by (simp add: writeEntries_append)
  with h parsed have run:
    "writeEntries env (podUIDs s) leaf (permute (rangeSeed env (world s)) podShares) (world s)
       = (False, w2)"
    by simp
  from kind show "handleMsg env msg s = (''Failure'', s\<lparr>world := w2\<rparr>)"
  proof
    assume "messageType msg = ''applyCPUShares'' \<and> leaf = ''/cpu.shares''"
    with parsed run show ?thesis
      by (simp add: handleMsg_def messageType_def applyCPUShares_def successOrFail_def)
  next
    assume "messageType msg = ''applyCPUQuotas'' \<and> leaf = ''/cpu.cfs_quota_us''"
    with parsed run show ?thesis
      by (simp add: handleMsg_def messageType_def applyCPUQuotas_def successOrFail_def)
  qed
qed

theorem partial_batch_counterexample:
  "handleMsg fsEnv ''applyCPUShares a:1 b:2''
     \<lparr>podUIDs = [(''a'', ''ua''), (''b'', ''ub'')], lbWeights = [],
      world = \<lparr>files = [(''/host/sys/fs/cgroup/cpu/kubepods/ua/cpu.shares'', ''1024'')],
               clock = 0\<rparr>\<rparr>
   = (''Failure'',
      \<lparr>podUIDs = [(''a'', ''ua''), (''b'', ''ub'')], lbWeights = [],
       world = \<lparr>files = [(''/host/sys/fs/cgroup/cpu/kubepods/ua/cpu.shares'', ''1'')],
                clock = 0\<rparr>\<rparr>)"
  by (simp add: handleMsg_def applyCPUShares_def parse_a1_b2 fsEnv_sel cgroupFile_def
      index_str_def successOrFail_def)

theorem partial_batch_stays_applied_witness:
  "messageType ''applyCPUShares a:1 b:2'' = ''applyCPUShares''
   \<and> parsePodShares fsEnv ''applyCPUShares a:1 b:2'' = ([(''a'', ''1''), (''b'', ''2'')], True)
   \<and> handleMsg fsEnv ''applyCPUShares a:1 b:2''
       \<lparr>podUIDs = [(''a'', ''ua''), (''b'', ''ub'')], lbWeights = [],
        world = \<lparr>files = [(''/host/sys/fs/cgroup/cpu/kubepods/ua/cpu.shares'', ''1024'')],
                 clock = 0\<rparr>\<rparr>
     = (''Failure'',
        \<lparr>podUIDs = [(''a'', ''ua''), (''b'', ''ub'')], lbWeights = [],
         world = \<lparr>files = [(''/host/sys/fs/cgroup/cpu/kubepods/ua/cpu.shares'', ''1'')],
                  clock = 0\<rparr>\<rparr>)
   \<and> messageType ''applyCPUShares a:1 b:x'' = ''applyCPUShares''
   \<and> \<not> snd (parsePodShares fsEnv ''applyCPUShares a:1 b:x'')
   \<and> handleMsg fsEnv ''applyCPUShares a:1 b:x''
       \<lparr>podUIDs = [(''a'', ''ua''), (''b'', ''ub'')], lbWeights = [],
        world = \<lparr>files = [(''/host/sys/fs/cgroup/cpu/kubepods/ua/cpu.shares'', ''1024'')],
                 clock = 0\<rparr>\<rparr>
     = (''Failure'',
        \<lparr>podUIDs = [(''a'', ''ua''), (''b'', ''ub'')], lbWeights = [],
         world = \<lparr>files = [(''/host/sys/fs/cgroup/cpu/kubepods/ua/cpu.shares'', ''1024'')],
                  clock = 0\<rparr>\<rparr>)"
proof -
  let ?s = "\<lparr>podUIDs = [(''a'', ''ua''), (''b'', ''ub'')], lbWeights = [],
        world = \<lparr>files = [(''/host/sys/fs/cgroup/cpu/kubepods/ua/cpu.shares'', ''1024'')],
                 clock = 0\<rparr>\<rparr>"
  let ?w1 = "\<lparr>files = [(''/host/sys/fs/cgroup/cpu/kubepods/ua/cpu.shares'', ''1'')],
              clock = 0\<rparr>"
  have k: "messageType ''applyCPUShares a:1 b:2'' = ''applyCPUShares''"
    by (simp add: messageType_def)
  have kind: "messageType ''applyCPUShares a:1 b:2'' = ''applyCPUShares''
                \<and> ''/cpu.shares'' = ''/cpu.shares''
              \<or> messageType ''applyCPUShares a:1 b:2'' = ''applyCPUQuotas''
                \<and> ''/cpu.shares'' = ''/cpu.cfs_quota_us''"
    using k by simp
  have order: "permute (rangeSeed fsEnv (world ?s))
                 (fst (parsePodShares fsEnv ''applyCPUShares a:1 b:2''))
                 = [(''a'', ''1'')] @ (''b'', ''2'') # []"
    by (simp add: parse_a1_b2 fsEnv_sel)
  have applied: "writeEntries fsEnv (podUIDs ?s) ''/cpu.shares'' [(''a'', ''1'')] (world ?s)
                   = (True, ?w1)"
    by (simp add: fsEnv_sel cgroupFile_def index_str_def)
  have failed: "writetofile fsEnv ''2'' (cgroupFile (podUIDs ?s) ''b'' ''/cpu.shares'') ?w1
                  = (False, ?w1)"
    by (simp add: fsEnv_sel cgroupFile_def index_str_def)
  have ok: "snd (parsePodShares fsEnv ''applyCPUShares a:1 b:2'')"
    by (simp add: parse_a1_b2)
  have k': "messageType ''applyCPUShares a:1 b:x'' = ''applyCPUShares''"
    by (simp add: messageType_def)
  have kind': "messageType ''applyCPUShares a:1 b:x'' = ''applyCPUShares''
                \<and> ''/cpu.shares'' = ''/cpu.shares''
              \<or> messageType ''applyCPUShares a:1 b:x'' = ''applyCPUQuotas''
                \<and> ''/cpu.shares'' = ''/cpu.cfs_quota_us''"
    using k' by simp
  from partial_batch_stays_applied [OF kind, of fsEnv ?s "[(''a'', ''1'')]" "''b''" "''2''" "[]"
      ?w1 ?w1] ok order applied failed
  have a: "handleMsg fsEnv ''applyCPUShares a:1 b:2'' ?s = (''Failure'', ?s\<lparr>world := ?w1\<rparr>)"
    by blast
  from partial_batch_stays_applied [OF kind', of fsEnv ?s] parse_a1_bx
  have b: "handleMsg fsEnv ''applyCPUShares a:1 b:x'' ?s = (''Failure'', ?s)"
    by blast
  from a b k k' parse_a1_b2 parse_a1_bx show ?thesis by simp
qed

subsection \<open>The runs of the helper\<close>










subsection \<open>A pod that the session does not know\<close>







subsection \<open>The value written for a pod\<close>









subsection \<open>The weights endpoint\<close>

lemma lbHandler_read:
  "reqBody r = Inr body \<Longrightarrow>
   status (lbHandler weights r) = 200 \<and> written (lbHandler weights r) = weights"
  by (simp add: lbHandler_def Write_def WriteHeader_def Header_Set_def newResponseWriter_def
      Let_def)

lemma lbHandler_unread:
  "reqBody r = Inl err \<Longrightarrow>
   written (lbHandler weights r) = ''Error reading request body'' @ [CHR 0x0A]"
  by (simp add: lbHandler_def http_Error_def Write_def WriteHeader_def Header_Set_def
      newResponseWriter_def Let_def)

text \<open>
  The handler sets \<open>Connection: close\<close> after \<^verbatim>\<open>WriteHeader\<close>, when the header that is
  sent is already fixed: the header map holds it, the header that the handler sends
  does not.
\<close>

lemma connection_header_not_sent: "sentHeader (lbHandler weights r) = []"
  by (cases "reqBody r")
     (simp_all add: lbHandler_def http_Error_def Write_def WriteHeader_def Header_Set_def
        newResponseWriter_def Let_def)

lemma plainMux_weights:
  "mux fsEnv \<lparr>reqMethod = m, reqPath = ''/weights'', reqBody = b\<rparr>
     = (if m = ''CONNECT'' then Some 301 else None)"
  by (simp add: fsEnv_mux plainMux_def canonicalPath_def)

lemma plainMux_root:
  "mux fsEnv \<lparr>reqMethod = m, reqPath = ''/'', reqBody = b\<rparr>
     = (if m = ''CONNECT'' then Some 301 else None)"
  by (simp add: fsEnv_mux plainMux_def canonicalPath_def)

lemma plainMux_double_slash:
  "mux fsEnv \<lparr>reqMethod = m, reqPath = ''//weights'', reqBody = b\<rparr> = Some 301"
  by (simp add: fsEnv_mux plainMux_def canonicalPath_def)

text \<open>
  Claim C9, as amended. No HTTP request changes the agent, the stored weights with it.
  For a request that net/http passes to the handler, when the body of the request is
  read, the response has status 200 and its body is the stored weights verbatim, or is
  empty when the method is \<^verbatim>\<open>HEAD\<close>; when reading the body fails, the body of the
  response is the line \<open>Error reading request body\<close>, or is empty when the method is
  \<^verbatim>\<open>HEAD\<close>, and nothing is said of its status. Nothing is said of the response to a
  request that net/http answers by itself, nor of the \<open>Connection\<close> header.
\<close>

theorem weights_endpoint_getter:
  "snd (agentStep env (Request r) a) = a
   \<and> (mux env r = None \<and> reqBody r = Inr body \<longrightarrow>
        agentStep env (Request r) a =
          (Served \<lparr>respStatus = 200,
                   respBody = (if reqMethod r = ''HEAD'' then [] else sharedWeights a)\<rparr>, a))
   \<and> (mux env r = None \<and> reqBody r = Inl err \<longrightarrow>
        (\<exists>code. agentStep env (Request r) a =
          (Served \<lparr>respStatus = code,
                   respBody = (if reqMethod r = ''HEAD'' then []
                               else ''Error reading request body'' @ [CHR 0x0A])\<rparr>, a)))"
proof (intro conjI impI)
  show "snd (agentStep env (Request r) a) = a"
    by (simp split: option.splits)
next
  assume h: "mux env r = None \<and> reqBody r = Inr body"
  then have b: "reqBody r = Inr body" by simp
  from h lbHandler_read [OF b, of "sharedWeights a"]
  show "agentStep env (Request r) a =
          (Served \<lparr>respStatus = 200,
                   respBody = (if reqMethod r = ''HEAD'' then [] else sharedWeights a)\<rparr>, a)"
    by (simp add: respond_def)
next
  assume h: "mux env r = None \<and> reqBody r = Inl err"
  then have b: "reqBody r = Inl err" by simp
  from h lbHandler_unread [OF b, of "sharedWeights a"]
  have "agentStep env (Request r) a =
          (Served \<lparr>respStatus = status (lbHandler (sharedWeights a) r),
                   respBody = (if reqMethod r = ''HEAD'' then []
                               else ''Error reading request body'' @ [CHR 0x0A])\<rparr>, a)"
    by (simp add: respond_def)
  then show "\<exists>code. agentStep env (Request r) a =
          (Served \<lparr>respStatus = code,
                   respBody = (if reqMethod r = ''HEAD'' then []
                               else ''Error reading request body'' @ [CHR 0x0A])\<rparr>, a)"
    by (rule exI [where x = "status (lbHandler (sharedWeights a) r)"])
qed

text \<open>
  With the weights \<open>applyLBWeights app1:100\<close> stored: a request whose body cannot be read
  gets the error line, a \<^verbatim>\<open>HEAD\<close> request gets no body, and a request for the path
  \<^verbatim>\<open>//weights\<close> gets the redirect of the mux, not the weights.
\<close>

theorem weights_endpoint_counterexample:
  "sharedWeights (initialAgent \<lparr>files = [], clock = 0\<rparr>
                   \<lparr>sharedWeights := ''applyLBWeights app1:100''\<rparr>) = ''applyLBWeights app1:100''
   \<and> (\<exists>code. fst (agentStep fsEnv
            (Request \<lparr>reqMethod = ''POST'', reqPath = ''/'', reqBody = Inl ReadError\<rparr>)
            (initialAgent \<lparr>files = [], clock = 0\<rparr>
               \<lparr>sharedWeights := ''applyLBWeights app1:100''\<rparr>))
     = Served \<lparr>respStatus = code,
                respBody = ''Error reading request body'' @ [CHR 0x0A]\<rparr>)
   \<and> fst (agentStep fsEnv
            (Request \<lparr>reqMethod = ''HEAD'', reqPath = ''/'', reqBody = Inr []\<rparr>)
            (initialAgent \<lparr>files = [], clock = 0\<rparr>
               \<lparr>sharedWeights := ''applyLBWeights app1:100''\<rparr>))
     = Served \<lparr>respStatus = 200, respBody = []\<rparr>
   \<and> fst (agentStep fsEnv
            (Request \<lparr>reqMethod = ''GET'', reqPath = ''//weights'', reqBody = Inr []\<rparr>)
            (initialAgent \<lparr>files = [], clock = 0\<rparr>
               \<lparr>sharedWeights := ''applyLBWeights app1:100''\<rparr>))
     = Refused 301"
  by (simp add: plainMux_root plainMux_double_slash respond_def lbHandler_def http_Error_def
      Write_def WriteHeader_def Header_Set_def newResponseWriter_def Let_def)

theorem weights_endpoint_getter_witness:
  "mux fsEnv \<lparr>reqMethod = ''PUT'', reqPath = ''/weights'', reqBody = Inr ''ignored''\<rparr> = None
   \<and> fst (agentStep fsEnv
            (Request \<lparr>reqMethod = ''PUT'', reqPath = ''/weights'', reqBody = Inr ''ignored''\<rparr>)
            (initialAgent \<lparr>files = [], clock = 0\<rparr>
               \<lparr>sharedWeights := ''applyLBWeights app1:100''\<rparr>))
     = Served \<lparr>respStatus = 200, respBody = ''applyLBWeights app1:100''\<rparr>
   \<and> mux fsEnv \<lparr>reqMethod = ''GET'', reqPath = ''/'', reqBody = Inl ReadError\<rparr> = None
   \<and> (\<exists>code. fst (agentStep fsEnv
            (Request \<lparr>reqMethod = ''GET'', reqPath = ''/'', reqBody = Inl ReadError\<rparr>)
            (initialAgent \<lparr>files = [], clock = 0\<rparr>
               \<lparr>sharedWeights := ''applyLBWeights app1:100''\<rparr>))
     = Served \<lparr>respStatus = code, respBody = ''Error reading request body'' @ [CHR 0x0A]\<rparr>)"
proof -
  let ?a = "initialAgent \<lparr>files = [], clock = 0\<rparr>
              \<lparr>sharedWeights := ''applyLBWeights app1:100''\<rparr> :: cgroupfs agent"
  let ?r1 = "\<lparr>reqMethod = ''PUT'', reqPath = ''/weights'', reqBody = Inr ''ignored''\<rparr>"
  let ?r2 = "\<lparr>reqMethod = ''GET'', reqPath = ''/'', reqBody = Inl ReadError\<rparr>"
  have m1: "mux fsEnv ?r1 = None" by (simp add: plainMux_weights)
  have m2: "mux fsEnv ?r2 = None" by (simp add: plainMux_root)
  have b1: "reqBody ?r1 = Inr ''ignored''" by simp
  have b2: "reqBody ?r2 = Inl ReadError" by simp
  from weights_endpoint_getter [of fsEnv ?r1 ?a "''ignored''"] m1 b1
  have s1: "agentStep fsEnv (Request ?r1) ?a =
      (Served \<lparr>respStatus = 200,
               respBody = (if reqMethod ?r1 = ''HEAD'' then [] else sharedWeights ?a)\<rparr>, ?a)"
    by blast
  from weights_endpoint_getter [of fsEnv ?r2 ?a _ ReadError] m2 b2
  obtain code where s2: "agentStep fsEnv (Request ?r2) ?a =
      (Served \<lparr>respStatus = code,
               respBody = (if reqMethod ?r2 = ''HEAD'' then []
                           else ''Error reading request body'' @ [CHR 0x0A])\<rparr>, ?a)"
    by blast
  have "fst (agentStep fsEnv (Request ?r1) ?a)
          = Served \<lparr>respStatus = 200, respBody = ''applyLBWeights app1:100''\<rparr>"
    unfolding s1 by simp
  moreover have "fst (agentStep fsEnv (Request ?r2) ?a)
          = Served \<lparr>respStatus = code,
                     respBody = ''Error reading request body'' @ [CHR 0x0A]\<rparr>"
    unfolding s2 by simp
  ultimately show ?thesis using m1 m2 by blast
qed

subsection \<open>The weights between two applyLBWeights\<close>

lemma handleMsg_keeps_weights:
  "messageType msg \<noteq> ''applyLBWeights'' \<Longrightarrow> lbWeights (snd (handleMsg env msg s)) = lbWeights s"
  by (simp add: handleMsg_def messageType_def Let_def split: prod.splits)

lemma handleMsg_applyLBWeights:
  "messageType msg = ''applyLBWeights'' \<Longrightarrow>
   handleMsg env msg s = (''Success'', s\<lparr>lbWeights := msg\<rparr>)"
  by (simp add: handleMsg_def messageType_def updateLBWeights_def successOrFail_def)

lemma agentStep_keeps_weights:
  "\<not> setsWeights ev \<Longrightarrow> sharedWeights (snd (agentStep env ev a)) = sharedWeights a"
proof (cases ev)
  case (Accept c)
  then show ?thesis by simp
next
  case (Read c r)
  assume q: "\<not> setsWeights ev"
  show ?thesis
  proof (cases "connections a c")
    case None
    with Read show ?thesis by simp
  next
    case (Some pods)
    show ?thesis
    proof (cases r)
      case (Inl err)
      with Read Some show ?thesis by simp
    next
      case (Inr msg)
      let ?s = "\<lparr>podUIDs = pods, lbWeights = sharedWeights a, world = outside a\<rparr>"
      obtain response s' where h: "handleMsg env msg ?s = (response, s')"
        by (cases "handleMsg env msg ?s")
      from Read Inr q have "messageType msg \<noteq> ''applyLBWeights''" by simp
      from handleMsg_keeps_weights [OF this, of env ?s] h
      have "lbWeights s' = sharedWeights a" by simp
      with Read Some Inr h show ?thesis by simp
    qed
  qed
next
  case (Request r)
  then show ?thesis by (simp split: option.splits)
qed

lemma agentRun_keeps_weights:
  "list_all (\<lambda>ev. \<not> setsWeights ev) evs \<Longrightarrow>
   sharedWeights (snd (agentRun env evs a)) = sharedWeights a"
proof (induction evs arbitrary: a)
  case Nil
  then show ?case by simp
next
  case (Cons ev evs)
  obtain out a' where s: "agentStep env ev a = (out, a')" by (cases "agentStep env ev a")
  obtain outs a'' where r: "agentRun env evs a' = (outs, a'')" by (cases "agentRun env evs a'")
  from Cons.prems have "\<not> setsWeights ev" by simp
  from agentStep_keeps_weights [OF this, of env a] s
  have "sharedWeights a' = sharedWeights a" by simp
  moreover from Cons.prems have "list_all (\<lambda>ev. \<not> setsWeights ev) evs" by simp
  from Cons.IH [OF this, of a'] r have "sharedWeights a'' = sharedWeights a'" by simp
  ultimately show ?case using s r by simp
qed

lemma agentRun_append:
  "agentRun env (xs @ ys) a =
     (case agentRun env xs a of
        (outs1, a1) \<Rightarrow> (case agentRun env ys a1 of (outs2, a2) \<Rightarrow> (outs1 @ outs2, a2)))"
  by (induction xs arbitrary: a) (auto split: prod.splits)

lemma length_agentRun: "agentRun env evs a = (outs, a') \<Longrightarrow> length outs = length evs"
  by (induction evs arbitrary: a outs a') (auto split: prod.splits)

text \<open>
  Claim C1, as amended. What is served is the whole message, not the payload. Let the
  agent, after any events, read on an open connection a message \<open>msg\<close> whose first token
  is \<open>applyLBWeights\<close>: it acknowledges it with \<open>Success\<close>. Then, after any further events
  none of which is the read of an \<open>applyLBWeights\<close> message, an HTTP request that net/http
  passes to the handler, whose method is not \<^verbatim>\<open>HEAD\<close> and whose body is read, is answered
  with status 200 and exactly \<open>msg\<close> as the body, the command word, the space and the
  payload.
\<close>

theorem weights_served_until_next_apply:
  assumes before: "agentRun env evs1 a0 = (outs1, a1)"
    and open_conn: "connections a1 c = Some pods"
    and kind: "messageType msg = ''applyLBWeights''"
    and quiet: "list_all (\<lambda>ev. \<not> setsWeights ev) evs2"
    and routed: "mux env r = None"
    and verb: "reqMethod r \<noteq> ''HEAD''"
    and body: "reqBody r = Inr body"
  shows "\<exists>outs2 a.
           agentRun env (evs1 @ Read c (Inr msg) # evs2 @ [Request r]) a0
             = (outs1 @ Sent c ''Success'' # outs2 @
                  [Served \<lparr>respStatus = 200, respBody = msg\<rparr>], a)
         \<and> length outs2 = length evs2 \<and> sharedWeights a = msg"
proof -
  let ?s = "\<lparr>podUIDs = pods, lbWeights = sharedWeights a1, world = outside a1\<rparr>"
  let ?a2 = "a1\<lparr>connections := (connections a1)(c \<mapsto> pods), sharedWeights := msg\<rparr>"
  have step: "agentStep env (Read c (Inr msg)) a1 = (Sent c ''Success'', ?a2)"
    using open_conn handleMsg_applyLBWeights [OF kind, of env ?s] by simp
  obtain outs2 a3 where run2: "agentRun env evs2 ?a2 = (outs2, a3)"
    by (cases "agentRun env evs2 ?a2")
  from agentRun_keeps_weights [OF quiet, of env ?a2] run2
  have w3: "sharedWeights a3 = msg" by simp
  from length_agentRun [OF run2] have len: "length outs2 = length evs2" .
  from lbHandler_read [OF body, of msg] routed verb w3
  have last: "agentStep env (Request r) a3
                = (Served \<lparr>respStatus = 200, respBody = msg\<rparr>, a3)"
    by (simp add: respond_def)
  have "agentRun env (evs1 @ Read c (Inr msg) # evs2 @ [Request r]) a0
          = (outs1 @ Sent c ''Success'' # outs2 @
               [Served \<lparr>respStatus = 200, respBody = msg\<rparr>], a3)"
    using before step run2 last by (simp add: agentRun_append)
  with len w3 show ?thesis by blast
qed

text \<open>
  After \<open>applyLBWeights a:1\<close> is acknowledged, a request gets \<open>applyLBWeights a:1\<close>, which
  is not the payload \<open>a:1\<close>.
\<close>

theorem weights_served_counterexample:
  "fst (agentRun fsEnv
          [Accept 0, Read 0 (Inr ''applyLBWeights a:1''),
           Request \<lparr>reqMethod = ''GET'', reqPath = ''/'', reqBody = Inr []\<rparr>]
          (initialAgent \<lparr>files = [], clock = 0\<rparr>))
     = [Accepted 0, Sent 0 ''Success'',
        Served \<lparr>respStatus = 200, respBody = ''applyLBWeights a:1''\<rparr>]
   \<and> ''applyLBWeights a:1'' \<noteq> ''a:1''"
  by (simp add: initialAgent_def handleMsg_def updateLBWeights_def successOrFail_def
      plainMux_root respond_def lbHandler_def Write_def WriteHeader_def Header_Set_def
      newResponseWriter_def Let_def)

theorem weights_served_until_next_apply_witness:
  "messageType ''applyLBWeights app1:100.000000 '' = ''applyLBWeights''
   \<and> list_all (\<lambda>ev. \<not> setsWeights ev)
        [Read 0 (Inr ''updatePods p:u''),
         Request \<lparr>reqMethod = ''GET'', reqPath = ''/'', reqBody = Inr []\<rparr>]
   \<and> mux fsEnv \<lparr>reqMethod = ''GET'', reqPath = ''/weights'', reqBody = Inr ''x''\<rparr> = None
   \<and> (\<exists>outs2 a.
         agentRun fsEnv
           ([Accept 0] @ Read 0 (Inr ''applyLBWeights app1:100.000000 '') #
            [Read 0 (Inr ''updatePods p:u''),
             Request \<lparr>reqMethod = ''GET'', reqPath = ''/'', reqBody = Inr []\<rparr>] @
            [Request \<lparr>reqMethod = ''GET'', reqPath = ''/weights'', reqBody = Inr ''x''\<rparr>])
           (initialAgent \<lparr>files = [], clock = 0\<rparr>)
         = ([Accepted 0] @ Sent 0 ''Success'' # outs2 @
              [Served \<lparr>respStatus = 200, respBody = ''applyLBWeights app1:100.000000 ''\<rparr>], a)
       \<and> length outs2 =
           length [Read 0 (Inr ''updatePods p:u''),
                   Request \<lparr>reqMethod = ''GET'', reqPath = ''/'', reqBody = Inr []\<rparr>]
       \<and> sharedWeights a = ''applyLBWeights app1:100.000000 '')"
proof -
  let ?a0 = "initialAgent \<lparr>files = [], clock = 0\<rparr> :: cgroupfs agent"
  let ?a1 = "?a0\<lparr>connections := (connections ?a0)(0 \<mapsto> [])\<rparr>"
  let ?r = "\<lparr>reqMethod = ''GET'', reqPath = ''/weights'', reqBody = Inr ''x''\<rparr>"
  have before: "agentRun fsEnv [Accept 0] ?a0 = ([Accepted 0], ?a1)"
    by simp
  have open_conn: "connections ?a1 0 = Some []"
    by simp
  have kind: "messageType ''applyLBWeights app1:100.000000 '' = ''applyLBWeights''"
    by (simp add: messageType_def)
  have quiet: "list_all (\<lambda>ev. \<not> setsWeights ev)
        [Read 0 (Inr ''updatePods p:u''),
         Request \<lparr>reqMethod = ''GET'', reqPath = ''/'', reqBody = Inr []\<rparr>]"
    by (simp add: messageType_def)
  have routed: "mux fsEnv ?r = None"
    by (simp add: plainMux_weights)
  have verb: "reqMethod ?r \<noteq> ''HEAD''"
    by simp
  have body: "reqBody ?r = Inr ''x''"
    by simp
  from weights_served_until_next_apply [OF before open_conn kind quiet routed verb body]
    kind quiet routed
  show ?thesis by blast
qed

subsection \<open>Sampling the utilization\<close>

lemma utilization_before_failed: "utilization 199999999 (- 1) 100000000 = Finite 200"
  by code_simp

lemma utilization_after_failed: "utilization (- 1) 99999999 100000000 = Finite (- 100)"
  by code_simp

lemma Sprintf_f_200: "Sprintf_f (Finite 200) = ''200.000000''"
  by (simp add: Sprintf_f_def round_half_even_def show_nat.simps replicate_5)

lemma Sprintf_f_neg_100: "Sprintf_f (Finite (- 100)) = ''-100.000000''"
  by (simp add: Sprintf_f_def round_half_even_def show_nat.simps replicate_5)

lemma ParseInt_199999999: "ParseInt (Trim_newline (''199999999'' @ [CHR 0x0A])) = Some 199999999"
  by (simp add: ParseInt_def ParseUint_def digit_of_def Trim_newline_def)

lemma ParseInt_99999999: "ParseInt (Trim_newline (''99999999'' @ [CHR 0x0A])) = Some 99999999"
  by (simp add: ParseInt_def ParseUint_def digit_of_def Trim_newline_def)

text \<open>
  Claim C2 does not hold of the code. \<open>getPodCPUUtil\<close> returns \<open>-1\<close> for a read that
  fails, and \<open>getCPUUtilizations\<close> subtracts the two captures without looking for it. A
  pod whose usage file cannot be read before the sleep and reads \<open>199999999\<close> after it,
  with 100 ms on the clock between, is reported at \<open>(199999999 - (-1)) / 10^8 * 100\<close>,
  that is \<open>200.000000\<close>, not at \<open>-1\<close>.
\<close>

theorem failed_first_read_reported:
  "getCPUUtilizations appearingEnv [(''p'', ''u'')] \<lparr>files = [], clock = 0\<rparr>
   = (''utils: p:200.000000'',
      \<lparr>files = [(''/host/sys/fs/cgroup/cpu/kubepods/u/cpuacct.usage'',
                  ''199999999'' @ [CHR 0x0A])],
       clock = 100000000\<rparr>)"
  using ParseInt_199999999
  by (simp add: getCPUUtilizations_def getPodCPUUtil_def getOSFile_def appearingEnv_def
      fsEnv_sel CPU_UTILIZATION_INTERVAL_MS_def wrap64_def index_int_def
      utilization_before_failed Sprintf_f_200)

text \<open>
  Claim C8 does not hold of the code, for the same reason. A pod whose usage file reads
  \<open>99999999\<close> before the sleep and cannot be read after it is reported at
  \<open>(-1 - 99999999) / 10^8 * 100\<close>, that is \<open>-100.000000\<close>: a negative value that is not
  \<open>-1\<close>.
\<close>

theorem failed_second_read_reported:
  "getCPUUtilizations vanishingEnv [(''p'', ''u'')]
     \<lparr>files = [(''/host/sys/fs/cgroup/cpu/kubepods/u/cpuacct.usage'',
                 ''99999999'' @ [CHR 0x0A])],
      clock = 0\<rparr>
   = (''utils: p:-100.000000'', \<lparr>files = [], clock = 100000000\<rparr>)"
  using ParseInt_99999999
  by (simp add: getCPUUtilizations_def getPodCPUUtil_def getOSFile_def vanishingEnv_def
      fsEnv_sel CPU_UTILIZATION_INTERVAL_MS_def wrap64_def index_int_def
      utilization_after_failed Sprintf_f_neg_100)

end
